theory Spec2Isabelle
  imports Complex_Main
begin

section \<open>Values and exceptions\<close>

text \<open>
  The three stage functions of \<^verbatim>\<open>backendgpt.py\<close> return whatever \<^verbatim>\<open>json.loads\<close>
  produced, or Python's \<^verbatim>\<open>None\<close>. Both are Python values, so one type serves for
  both: \<open>JNull\<close> is \<^verbatim>\<open>None\<close>, also when it is the sentinel of the last line of a
  stage. A dict is an association list; a float is left uninterpreted.
\<close>

typedecl pyfloat

datatype json =
    JNull
  | JBool bool
  | JInt int
  | JFloat pyfloat
  | JString string
  | JArray "json list"
  | JObject "(string \<times> json) list"

text \<open>
  The exceptions the code can meet. All of them derive from Python's \<^verbatim>\<open>Exception\<close>;
  \<open>APIError\<close> is \<^verbatim>\<open>google.genai.errors.APIError\<close>, \<open>OtherException\<close> any further
  subclass of \<^verbatim>\<open>Exception\<close>. Asynchronous interrupts are outside the model.
\<close>

datatype exn =
    APIError | JSONDecodeError | TypeError | ValueError | OverflowError | OSError | OtherException

section \<open>The remote service, the parser and the clock\<close>

text \<open>
  The instruction text of each stage is an f-string around the arguments. The fixed text
  is not reproduced: a prompt is the stage's template together with the values
  interpolated into it.
\<close>

datatype prompt =
    SubtopicsPrompt string
  | ExplanationPrompt string string
  | ActivityPrompt string string string

record config =
  system_instruction :: prompt
  response_mime_type :: string
  temperature :: rat
  max_output_tokens :: "int option"

record request =
  model :: string
  contents :: string
  config :: config

text \<open>
  What one call of \<^verbatim>\<open>client.models.generate_content\<close> does: it raises, or it returns a
  response whose \<^verbatim>\<open>text\<close> is \<^verbatim>\<open>None\<close> or a string.
\<close>

datatype outcome = Raises exn | Returns "string option"

text \<open>
  The client is the remote service as this process sees it: the outcome of its \<open>i\<close>-th
  call (counted from 0) for the request sent.
\<close>

type_synonym service = "nat \<Rightarrow> request \<Rightarrow> outcome"

text \<open>
  Everything a stage does to the outside, in the order it happens: calls of the service,
  lines printed, sleeps.
\<close>

datatype msg =
    EmptyResponseMsg int
  | ApiErrorMsg int exn
  | UnexpectedErrorMsg int exn
  | RetryingMsg int
  | AttemptFailedMsg int exn
  | MaxRetriesSubtopics
  | MaxRetriesExplanation
  | MaxRetriesActivity

datatype event = Call request | Print msg | Sleep int

fun calls_of :: "event list \<Rightarrow> request list" where
  "calls_of [] = []"
| "calls_of (Call r # es) = r # calls_of es"
| "calls_of (Print m # es) = calls_of es"
| "calls_of (Sleep s # es) = calls_of es"

fun sleeps_of :: "event list \<Rightarrow> int list" where
  "sleeps_of [] = []"
| "sleeps_of (Call r # es) = sleeps_of es"
| "sleeps_of (Print m # es) = sleeps_of es"
| "sleeps_of (Sleep s # es) = s # sleeps_of es"

text \<open>The calls and sleeps of a trace, in order, without the printed lines.\<close>

fun timeline :: "event list \<Rightarrow> event list" where
  "timeline [] = []"
| "timeline (Print m # es) = timeline es"
| "timeline (e # es) = e # timeline es"

definition generate_content :: "service \<Rightarrow> request \<Rightarrow> event list \<Rightarrow> outcome \<times> event list" where
  "generate_content client req tr = (client (length (calls_of tr)) req, tr @ [Call req])"

definition print :: "msg \<Rightarrow> event list \<Rightarrow> event list" where
  "print m tr = tr @ [Print m]"

text \<open>
  \<^verbatim>\<open>json.loads\<close> is the standard library's. Its decoding of a non-empty document is a
  parameter \<open>dec\<close> (it returns a value or raises); what it does before decoding is
  written out: an argument that is \<^verbatim>\<open>None\<close> raises \<^verbatim>\<open>TypeError\<close>, and the empty string is
  no JSON document.
\<close>

type_synonym decoder = "string \<Rightarrow> exn + json"

definition json_loads :: "decoder \<Rightarrow> string option \<Rightarrow> exn + json" where
  "json_loads dec text =
     (case text of
        None \<Rightarrow> Inl TypeError
      | Some s \<Rightarrow> if s = [] then Inl JSONDecodeError else dec s)"

text \<open>
  \<^verbatim>\<open>time.sleep\<close> refuses a negative length with \<^verbatim>\<open>ValueError\<close>, and with
  \<^verbatim>\<open>OverflowError\<close> a length of 9223372037 seconds or more, which does not fit its
  64-bit count of nanoseconds. For a length in between the operating system decides,
  and it may refuse too (\<^verbatim>\<open>OSError\<close> near the limit): the clock tells what happens to
  the \<open>i\<close>-th sleep of a run (counted from 0) for the length asked, \<open>None\<close> when the
  sleep is taken and \<open>Some e\<close> when the call raises \<open>e\<close>.
\<close>

type_synonym clock = "nat \<Rightarrow> int \<Rightarrow> exn option"

definition time_sleep :: "clock \<Rightarrow> int \<Rightarrow> event list \<Rightarrow> exn option \<times> event list" where
  "time_sleep clock secs tr =
     (if secs < 0 then (Some ValueError, tr)
      else if 9223372037 \<le> secs then (Some OverflowError, tr)
      else (case clock (length (sleeps_of tr)) secs of
              Some e \<Rightarrow> (Some e, tr)
            | None \<Rightarrow> (None, tr @ [Sleep secs])))"

section \<open>Module initialisation\<close>

text \<open>
  \<^verbatim>\<open>
  GEMINI_API_KEY = os.getenv("GEMINI_API_KEY")
  if not GEMINI_API_KEY:
      raise ValueError(...)
  client = genai.Client(api_key=GEMINI_API_KEY)
  MODEL_ID = "gemini-2.5-flash-lite"
  \<close>
  The environment is the process environment after \<^verbatim>\<open>load_dotenv()\<close>; \<open>genai_Client\<close>
  gives the service reached with a key.
\<close>

record module =
  GEMINI_API_KEY :: string
  client_of :: service
  MODEL_ID_of :: string

definition MODEL_ID :: string where
  "MODEL_ID = ''gemini-2.5-flash-lite''"

definition os_getenv :: "(string \<rightharpoonup> string) \<Rightarrow> string \<Rightarrow> string option" where
  "os_getenv environ name = environ name"

text \<open>Python's truth value of the result of \<^verbatim>\<open>os.getenv\<close>: \<^verbatim>\<open>None\<close> and \<^verbatim>\<open>""\<close> are false.\<close>

definition truthy :: "string option \<Rightarrow> bool" where
  "truthy t = (case t of None \<Rightarrow> False | Some s \<Rightarrow> s \<noteq> [])"

definition load_module :: "(string \<Rightarrow> service) \<Rightarrow> (string \<rightharpoonup> string) \<Rightarrow> exn + module" where
  "load_module genai_Client environ =
     (let key = os_getenv environ ''GEMINI_API_KEY'' in
      if \<not> truthy key then Inl ValueError
      else Inr \<lparr>GEMINI_API_KEY = the key, client_of = genai_Client (the key), MODEL_ID_of = MODEL_ID\<rparr>)"

text \<open>
  A caller reaches a stage function through the module: when the module's top level
  raised, there is no function to call, and nothing happens but the exception.
\<close>

definition from_module ::
  "(string \<Rightarrow> service) \<Rightarrow> (string \<rightharpoonup> string) \<Rightarrow> (service \<Rightarrow> (exn + json) \<times> event list)
     \<Rightarrow> (exn + json) \<times> event list" where
  "from_module genai_Client environ stage =
     (case load_module genai_Client environ of
        Inl e \<Rightarrow> (Inl e, [])
      | Inr m \<Rightarrow> stage (client_of m))"

section \<open>Stage 1: generate\_subtopics\<close>

definition default_retries :: int where
  "default_retries = 1"


definition subtopics_config :: "string \<Rightarrow> config" where
  "subtopics_config user_question =
     \<lparr>system_instruction = SubtopicsPrompt user_question,
      response_mime_type = ''application/json'',
      temperature = 7 / 10,
      max_output_tokens = Some 500\<rparr>"

definition subtopics_request :: "string \<Rightarrow> request" where
  "subtopics_request user_question =
     \<lparr>model = MODEL_ID, contents = user_question, config = subtopics_config user_question\<rparr>"

text \<open>
  The \<^verbatim>\<open>try\<close> block of one attempt with its two handlers. \<open>Some v\<close> is
  \<^verbatim>\<open>return json.loads(response.text)\<close>; \<open>None\<close> is control reaching the backoff.
  \<^verbatim>\<open>except errors.APIError\<close> comes before \<^verbatim>\<open>except Exception\<close>.
\<close>

definition subtopics_handler :: "int \<Rightarrow> exn \<Rightarrow> event list \<Rightarrow> event list" where
  "subtopics_handler attempt e tr =
     (if e = APIError then print (ApiErrorMsg attempt e) tr
      else print (UnexpectedErrorMsg attempt e) tr)"

definition subtopics_attempt ::
  "service \<Rightarrow> decoder \<Rightarrow> request \<Rightarrow> int \<Rightarrow> event list \<Rightarrow> json option \<times> event list" where
  "subtopics_attempt client dec req attempt tr =
     (case generate_content client req tr of
        (Raises e, tr1) \<Rightarrow> (None, subtopics_handler attempt e tr1)
      | (Returns text, tr1) \<Rightarrow>
          if truthy text then
            (case json_loads dec text of
               Inr v \<Rightarrow> (Some v, tr1)
             | Inl e \<Rightarrow> (None, subtopics_handler attempt e tr1))
          else (None, print (EmptyResponseMsg attempt) tr1))"

text \<open>
  \<^verbatim>\<open>
  if attempt < retries:
      wait_time = delay * (2 ** (attempt - 1))
      print(f"Retrying in {wait_time} seconds...")
      time.sleep(wait_time)
  \<close>
  This is outside the \<^verbatim>\<open>try\<close>: an exception of \<^verbatim>\<open>time.sleep\<close> leaves the function.
\<close>

definition subtopics_backoff ::
  "clock \<Rightarrow> int \<Rightarrow> int \<Rightarrow> int \<Rightarrow> event list \<Rightarrow> exn option \<times> event list" where
  "subtopics_backoff clock retries delay attempt tr =
     (if attempt < retries then
        (let wait_time = delay * 2 ^ nat (attempt - 1)
         in time_sleep clock wait_time (print (RetryingMsg wait_time) tr))
      else (None, tr))"

text \<open>The \<^verbatim>\<open>for\<close> loop over the attempts still to make, and the two lines after it.\<close>

fun subtopics_loop ::
  "service \<Rightarrow> decoder \<Rightarrow> clock \<Rightarrow> request \<Rightarrow> int \<Rightarrow> int \<Rightarrow> int list \<Rightarrow> event list
     \<Rightarrow> (exn + json) \<times> event list" where
  "subtopics_loop client dec clock req retries delay [] tr =
     (Inr JNull, print MaxRetriesSubtopics tr)"
| "subtopics_loop client dec clock req retries delay (attempt # rest) tr =
     (case subtopics_attempt client dec req attempt tr of
        (Some v, tr1) \<Rightarrow> (Inr v, tr1)
      | (None, tr1) \<Rightarrow>
          (case subtopics_backoff clock retries delay attempt tr1 of
             (Some e, tr2) \<Rightarrow> (Inl e, tr2)
           | (None, tr2) \<Rightarrow> subtopics_loop client dec clock req retries delay rest tr2))"

text \<open>\<^verbatim>\<open>range(1, retries + 1)\<close> is the list \<open>[1..retries]\<close>, empty when \<open>retries < 1\<close>.\<close>

definition generate_subtopics ::
  "service \<Rightarrow> decoder \<Rightarrow> clock \<Rightarrow> string \<Rightarrow> int \<Rightarrow> int \<Rightarrow> (exn + json) \<times> event list" where
  "generate_subtopics client dec clock user_question retries delay =
     subtopics_loop client dec clock (subtopics_request user_question) retries delay [1..retries] []"

section \<open>Stage 2: generate\_explanation\_and\_activity\<close>

definition explanation_config :: "string \<Rightarrow> string \<Rightarrow> config" where
  "explanation_config subtopic user_question =
     \<lparr>system_instruction = ExplanationPrompt user_question subtopic,
      response_mime_type = ''application/json'',
      temperature = 7 / 10,
      max_output_tokens = Some 1000\<rparr>"

definition explanation_request :: "string \<Rightarrow> string \<Rightarrow> request" where
  "explanation_request subtopic user_question =
     \<lparr>model = MODEL_ID, contents = subtopic, config = explanation_config subtopic user_question\<rparr>"

text \<open>
  Here the body is handed to \<^verbatim>\<open>json.loads\<close> without a test, and one handler,
  \<^verbatim>\<open>except Exception\<close>, takes every failure.
\<close>

definition explanation_attempt ::
  "service \<Rightarrow> decoder \<Rightarrow> request \<Rightarrow> int \<Rightarrow> event list \<Rightarrow> json option \<times> event list" where
  "explanation_attempt client dec req attempt tr =
     (case generate_content client req tr of
        (Raises e, tr1) \<Rightarrow> (None, print (AttemptFailedMsg attempt e) tr1)
      | (Returns text, tr1) \<Rightarrow>
          (case json_loads dec text of
             Inr v \<Rightarrow> (Some v, tr1)
           | Inl e \<Rightarrow> (None, print (AttemptFailedMsg attempt e) tr1)))"

text \<open>
  \<^verbatim>\<open>
  if attempt < retries:
      wait_time = delay * (2 ** (attempt - 1))
      time.sleep(wait_time)
  \<close>
\<close>

definition explanation_backoff ::
  "clock \<Rightarrow> int \<Rightarrow> int \<Rightarrow> int \<Rightarrow> event list \<Rightarrow> exn option \<times> event list" where
  "explanation_backoff clock retries delay attempt tr =
     (if attempt < retries then
        (let wait_time = delay * 2 ^ nat (attempt - 1)
         in time_sleep clock wait_time tr)
      else (None, tr))"

fun explanation_loop ::
  "service \<Rightarrow> decoder \<Rightarrow> clock \<Rightarrow> request \<Rightarrow> int \<Rightarrow> int \<Rightarrow> int list \<Rightarrow> event list
     \<Rightarrow> (exn + json) \<times> event list" where
  "explanation_loop client dec clock req retries delay [] tr =
     (Inr JNull, print MaxRetriesExplanation tr)"
| "explanation_loop client dec clock req retries delay (attempt # rest) tr =
     (case explanation_attempt client dec req attempt tr of
        (Some v, tr1) \<Rightarrow> (Inr v, tr1)
      | (None, tr1) \<Rightarrow>
          (case explanation_backoff clock retries delay attempt tr1 of
             (Some e, tr2) \<Rightarrow> (Inl e, tr2)
           | (None, tr2) \<Rightarrow> explanation_loop client dec clock req retries delay rest tr2))"

definition generate_explanation_and_activity ::
  "service \<Rightarrow> decoder \<Rightarrow> clock \<Rightarrow> string \<Rightarrow> string \<Rightarrow> int \<Rightarrow> int
     \<Rightarrow> (exn + json) \<times> event list" where
  "generate_explanation_and_activity client dec clock subtopic user_question retries delay =
     explanation_loop client dec clock (explanation_request subtopic user_question) retries delay
       [1..retries] []"

section \<open>Stage 3: generate\_interactive\_activity\<close>

definition default_template_type :: string where
  "default_template_type = ''drag_drop''"

text \<open>No \<^verbatim>\<open>max_output_tokens\<close> is given in this configuration.\<close>

definition activity_config :: "string \<Rightarrow> string \<Rightarrow> string \<Rightarrow> config" where
  "activity_config topic explanation template_type =
     \<lparr>system_instruction = ActivityPrompt topic explanation template_type,
      response_mime_type = ''application/json'',
      temperature = 7 / 10,
      max_output_tokens = None\<rparr>"

definition activity_request :: "string \<Rightarrow> string \<Rightarrow> string \<Rightarrow> request" where
  "activity_request topic explanation template_type =
     \<lparr>model = MODEL_ID, contents = template_type,
      config = activity_config topic explanation template_type\<rparr>"

definition activity_attempt ::
  "service \<Rightarrow> decoder \<Rightarrow> request \<Rightarrow> int \<Rightarrow> event list \<Rightarrow> json option \<times> event list" where
  "activity_attempt client dec req attempt tr =
     (case generate_content client req tr of
        (Raises e, tr1) \<Rightarrow> (None, print (AttemptFailedMsg attempt e) tr1)
      | (Returns text, tr1) \<Rightarrow>
          (case json_loads dec text of
             Inr v \<Rightarrow> (Some v, tr1)
           | Inl e \<Rightarrow> (None, print (AttemptFailedMsg attempt e) tr1)))"

definition activity_backoff ::
  "clock \<Rightarrow> int \<Rightarrow> int \<Rightarrow> int \<Rightarrow> event list \<Rightarrow> exn option \<times> event list" where
  "activity_backoff clock retries delay attempt tr =
     (if attempt < retries then
        (let wait_time = delay * 2 ^ nat (attempt - 1)
         in time_sleep clock wait_time tr)
      else (None, tr))"

fun activity_loop ::
  "service \<Rightarrow> decoder \<Rightarrow> clock \<Rightarrow> request \<Rightarrow> int \<Rightarrow> int \<Rightarrow> int list \<Rightarrow> event list
     \<Rightarrow> (exn + json) \<times> event list" where
  "activity_loop client dec clock req retries delay [] tr =
     (Inr JNull, print MaxRetriesActivity tr)"
| "activity_loop client dec clock req retries delay (attempt # rest) tr =
     (case activity_attempt client dec req attempt tr of
        (Some v, tr1) \<Rightarrow> (Inr v, tr1)
      | (None, tr1) \<Rightarrow>
          (case activity_backoff clock retries delay attempt tr1 of
             (Some e, tr2) \<Rightarrow> (Inl e, tr2)
           | (None, tr2) \<Rightarrow> activity_loop client dec clock req retries delay rest tr2))"

definition generate_interactive_activity ::
  "service \<Rightarrow> decoder \<Rightarrow> clock \<Rightarrow> string \<Rightarrow> string \<Rightarrow> string \<Rightarrow> int \<Rightarrow> int
     \<Rightarrow> (exn + json) \<times> event list" where
  "generate_interactive_activity client dec clock topic explanation template_type retries delay =
     activity_loop client dec clock (activity_request topic explanation template_type) retries delay
       [1..retries] []"

section \<open>Observations on a run\<close>

text \<open>
  What an attempt yields, read off the service's outcome: the parsed value, or nothing
  when the call raised or the body was missing, empty or not parseable.
\<close>

definition parsed :: "decoder \<Rightarrow> outcome \<Rightarrow> json option" where
  "parsed dec out =
     (case out of
        Raises e \<Rightarrow> None
      | Returns text \<Rightarrow> (case json_loads dec text of Inl e \<Rightarrow> None | Inr v \<Rightarrow> Some v))"

text \<open>
  The four ways an attempt of stage 1 fails, after the branches of its \<^verbatim>\<open>try\<close> block:
  \<^verbatim>\<open>except errors.APIError\<close>, \<^verbatim>\<open>except Exception\<close> for an exception of the call, the
  \<^verbatim>\<open>else\<close> of \<^verbatim>\<open>if response.text\<close>, and an exception of \<^verbatim>\<open>json.loads\<close>.
\<close>

datatype failure = RemoteServiceError | UnexpectedException | EmptyBody | ParseFailure

definition failure_of :: "decoder \<Rightarrow> outcome \<Rightarrow> failure option" where
  "failure_of dec out =
     (case out of
        Raises e \<Rightarrow> Some (if e = APIError then RemoteServiceError else UnexpectedException)
      | Returns text \<Rightarrow>
          if \<not> truthy text then Some EmptyBody
          else (case json_loads dec text of Inl e \<Rightarrow> Some ParseFailure | Inr v \<Rightarrow> None))"

text \<open>
  \<open>n\<close> attempts in a row, a sleep of \<open>d * 2 ^ (k - 1)\<close> after attempt \<open>k\<close> for
  \<open>k = 1, \<dots>, n - 1\<close>, and none after attempt \<open>n\<close>.
\<close>

definition backoff_schedule :: "request \<Rightarrow> int \<Rightarrow> int \<Rightarrow> event list" where
  "backoff_schedule req d n =
     concat (map (\<lambda>k. Call req # (if k < n then [Sleep (d * 2 ^ nat (k - 1))] else [])) [1..n])"

text \<open>
  A length that \<^verbatim>\<open>time.sleep\<close> takes whenever it is asked, and a budget and a delay all
  of whose waits are such lengths: the wait after attempt \<open>k\<close> is
  \<open>delay * 2 ^ (k - 1)\<close>, for \<open>1 \<le> k < retries\<close>.
\<close>

definition accepts :: "clock \<Rightarrow> int \<Rightarrow> bool" where
  "accepts clock secs = (0 \<le> secs \<and> secs < 9223372037 \<and> (\<forall>i. clock i secs = None))"

definition waits_accepted :: "clock \<Rightarrow> int \<Rightarrow> int \<Rightarrow> bool" where
  "waits_accepted clock retries delay =
     (\<forall>k. 1 \<le> k \<and> k < retries \<longrightarrow> accepts clock (delay * 2 ^ nat (k - 1)))"


text \<open>
  The shape the three loops share, with the attempt, the backoff and the last message as
  parameters. It serves the proofs only: each stage's loop is shown equal to an instance.
\<close>

fun retry_for ::
  "(int \<Rightarrow> event list \<Rightarrow> json option \<times> event list)
     \<Rightarrow> (int \<Rightarrow> event list \<Rightarrow> exn option \<times> event list)
     \<Rightarrow> msg \<Rightarrow> int list \<Rightarrow> event list \<Rightarrow> (exn + json) \<times> event list" where
  "retry_for att bo m [] tr = (Inr JNull, print m tr)"
| "retry_for att bo m (attempt # rest) tr =
     (case att attempt tr of
        (Some v, tr1) \<Rightarrow> (Inr v, tr1)
      | (None, tr1) \<Rightarrow>
          (case bo attempt tr1 of
             (Some e, tr2) \<Rightarrow> (Inl e, tr2)
           | (None, tr2) \<Rightarrow> retry_for att bo m rest tr2))"

section \<open>Concrete services and documents\<close>

text \<open>A service that gives the listed outcomes to its first calls and \<open>rest\<close> ever after.\<close>

definition scripted :: "outcome list \<Rightarrow> outcome \<Rightarrow> service" where
  "scripted outs rest i req = (if i < length outs then outs ! i else rest)"

text \<open>An operating system that takes every sleep it is asked for.\<close>

definition willing_clock :: clock where
  "willing_clock i secs = None"

text \<open>
  A decoder known on the documents of a table, for running the stages on concrete
  bodies: each entry pairs a JSON text with the value \<^verbatim>\<open>json.loads\<close> gives for it; any
  other text is refused.
\<close>

definition decoder_of_table :: "(string \<times> json) list \<Rightarrow> decoder" where
  "decoder_of_table tbl s = (case map_of tbl s of None \<Rightarrow> Inl JSONDecodeError | Some v \<Rightarrow> Inr v)"

section \<open>The shapes the specification expects\<close>

definition json_get :: "json \<Rightarrow> string \<Rightarrow> json option" where
  "json_get v k = (case v of JObject kvs \<Rightarrow> map_of kvs k | _ \<Rightarrow> None)"







text \<open>
  The invariants of the activity shapes in the specification's data model: a
  \<open>match\<close> activity has \<open>pairs\<close>; in \<open>fill_blanks\<close> every answer is one of the
  candidates of its blank; in \<open>drag_drop\<close> every \<open>correctElementId\<close> is the id of a
  draggable element.
\<close>

definition has_pairs :: "json \<Rightarrow> bool" where
  "has_pairs v = (case json_get v ''pairs'' of Some (JArray ps) \<Rightarrow> True | _ \<Rightarrow> False)"

definition answer_among :: "(string \<times> json) list \<Rightarrow> string \<times> json \<Rightarrow> bool" where
  "answer_among blanks ka =
     (case map_of blanks (fst ka) of Some (JArray opts) \<Rightarrow> snd ka \<in> set opts | _ \<Rightarrow> False)"

definition fill_blanks_invariant :: "json \<Rightarrow> bool" where
  "fill_blanks_invariant v =
     (case json_get v ''blanks'' of
        Some (JObject blanks) \<Rightarrow>
          (case json_get v ''answers'' of
             Some (JObject answers) \<Rightarrow> list_all (answer_among blanks) answers
           | _ \<Rightarrow> False)
      | _ \<Rightarrow> False)"

definition refers_to :: "json list \<Rightarrow> json \<Rightarrow> bool" where
  "refers_to elements blank =
     (case json_get blank ''correctElementId'' of
        Some i \<Rightarrow> Some i \<in> set (map (\<lambda>el. json_get el ''id'') elements)
      | None \<Rightarrow> False)"

definition drag_drop_invariant :: "json \<Rightarrow> bool" where
  "drag_drop_invariant v =
     (case json_get v ''draggableElements'' of
        Some (JArray elements) \<Rightarrow>
          (case json_get v ''droppableBlanks'' of
             Some (JArray blanks) \<Rightarrow> list_all (refers_to elements) blanks
           | _ \<Rightarrow> False)
      | _ \<Rightarrow> False)"

section \<open>Sample documents\<close>

text \<open>
  Three bodies that are JSON but not activities of the shape asked for, each with the
  value \<^verbatim>\<open>json.loads\<close> gives for it: a \<open>match\<close> activity without \<open>pairs\<close>, a
  \<open>fill_in_blanks\<close> activity whose answer is not among the candidates of its blank, and
  a \<open>drag_drop\<close> activity whose blank names an element that does not exist.
\<close>

definition match_without_pairs_body :: string where
  \<open>match_without_pairs_body = ''{"id": "m1", "type": "match", "title": "Key Concepts"}''\<close>

definition match_without_pairs :: json where
  "match_without_pairs =
     JObject [(''id'', JString ''m1''), (''type'', JString ''match''),
              (''title'', JString ''Key Concepts'')]"

definition stray_answer_body :: string where
  \<open>stray_answer_body =
     ''{"type": "fill_in_blanks", "blanks": {"1": ["Melanin", "Keratin"]}, "answers": {"1": "Chlorophyll"}}''\<close>

definition stray_answer :: json where
  "stray_answer =
     JObject [(''type'', JString ''fill_in_blanks''),
              (''blanks'', JObject [(''1'', JArray [JString ''Melanin'', JString ''Keratin''])]),
              (''answers'', JObject [(''1'', JString ''Chlorophyll'')])]"

definition dangling_element_body :: string where
  \<open>dangling_element_body =
     ''{"type": "drag_drop", "draggableElements": [{"id": "id1", "label": "Term"}], "droppableBlanks": [{"id": "drop-1", "label": "Hint", "correctElementId": "id9"}]}''\<close>

definition dangling_element :: json where
  "dangling_element =
     JObject [(''type'', JString ''drag_drop''),
              (''draggableElements'',
                 JArray [JObject [(''id'', JString ''id1''), (''label'', JString ''Term'')]]),
              (''droppableBlanks'',
                 JArray [JObject [(''id'', JString ''drop-1''), (''label'', JString ''Hint''),
                                  (''correctElementId'', JString ''id9'')]])]"

definition sample_decoder :: decoder where
  "sample_decoder =
     decoder_of_table
       [(''{}'', JObject []),
        (''null'', JNull),
        (match_without_pairs_body, match_without_pairs),
        (stray_answer_body, stray_answer),
        (dangling_element_body, dangling_element)]"

section \<open>Traces\<close>

lemma calls_of_append [simp]: "calls_of (xs @ ys) = calls_of xs @ calls_of ys"
  by (induction xs rule: calls_of.induct) simp_all

lemma sleeps_of_append [simp]: "sleeps_of (xs @ ys) = sleeps_of xs @ sleeps_of ys"
  by (induction xs rule: sleeps_of.induct) simp_all

lemma timeline_append [simp]: "timeline (xs @ ys) = timeline xs @ timeline ys"
  by (induction xs rule: timeline.induct) simp_all

lemma calls_of_timeline [simp]: "calls_of (timeline tr) = calls_of tr"
  by (induction tr rule: timeline.induct) simp_all

lemma sleeps_of_timeline [simp]: "sleeps_of (timeline tr) = sleeps_of tr"
  by (induction tr rule: timeline.induct) simp_all

lemma calls_of_after_call:
  "timeline tr' = timeline tr @ [Call req] \<Longrightarrow> calls_of tr' = calls_of tr @ [req]"
  using calls_of_timeline [of tr'] by simp

section \<open>Waits that are accepted\<close>

lemma time_sleep_accepted:
  "accepts clock secs \<Longrightarrow> time_sleep clock secs tr = (None, tr @ [Sleep secs])"
  by (simp add: time_sleep_def accepts_def)

lemma time_sleep_calls: "calls_of (snd (time_sleep clock secs tr)) = calls_of tr"
  by (simp add: time_sleep_def split: option.splits)

lemma waits_acceptedD:
  "waits_accepted clock retries delay \<Longrightarrow> 1 \<le> a \<Longrightarrow> a < retries \<Longrightarrow>
     accepts clock (delay * 2 ^ nat (a - 1))"
  by (simp add: waits_accepted_def)

lemma waits_acceptedI:
  assumes "0 \<le> delay" "delay * 2 ^ nat (retries - 2) < 9223372037"
    and "\<And>i secs. clock i secs = None"
  shows "waits_accepted clock retries delay"
  unfolding waits_accepted_def accepts_def
proof (intro allI impI conjI)
  fix k :: int
  assume k: "1 \<le> k \<and> k < retries"
  show "0 \<le> delay * 2 ^ nat (k - 1)" using assms(1) by simp
  have "(2::int) ^ nat (k - 1) \<le> 2 ^ nat (retries - 2)"
    using k by (intro power_increasing) auto
  then have "delay * 2 ^ nat (k - 1) \<le> delay * 2 ^ nat (retries - 2)"
    using assms(1) by (rule mult_left_mono)
  with assms(2) show "delay * 2 ^ nat (k - 1) < 9223372037" by simp
  show "clock i (delay * 2 ^ nat (k - 1)) = None" for i by (rule assms(3))
qed

section \<open>The retry loop\<close>

lemma retry_for_all_fail:
  assumes att_fst: "\<And>a tr. fst (att a tr) = parsed dec (client (length (calls_of tr)) req)"
    and att_tl: "\<And>a tr. timeline (snd (att a tr)) = timeline tr @ [Call req]"
    and bo: "\<And>a tr. 1 \<le> a \<Longrightarrow> fst (bo a tr) = None \<and>
               timeline (snd (bo a tr)) =
                 timeline tr @ (if a < retries then [Sleep (delay * 2 ^ nat (a - 1))] else [])"
    and pos: "\<forall>a\<in>set as. 1 \<le> a"
    and fails: "\<forall>i<length as. parsed dec (client (length (calls_of tr) + i) req) = None"
  shows "fst (retry_for att bo m as tr) = Inr JNull \<and>
         timeline (snd (retry_for att bo m as tr)) =
           timeline tr @
           concat (map (\<lambda>k. Call req # (if k < retries then [Sleep (delay * 2 ^ nat (k - 1))] else [])) as)"
  using pos fails
proof (induction as arbitrary: tr)
  case Nil
  show ?case by (simp add: print_def)
next
  case (Cons a as)
  obtain r1 tr1 where a1: "att a tr = (r1, tr1)" by (cases "att a tr")
  obtain r2 tr2 where b1: "bo a tr1 = (r2, tr2)" by (cases "bo a tr1")
  have a: "1 \<le> a" using Cons.prems(1) by simp
  have "parsed dec (client (length (calls_of tr)) req) = None"
    using Cons.prems(2) by auto
  with att_fst [of a tr] a1 have r1: "r1 = None" by simp
  from att_tl [of a tr] a1 have t1: "timeline tr1 = timeline tr @ [Call req]" by simp
  from bo [OF a, of tr1] b1 have r2: "r2 = None"
    and t2: "timeline tr2 = timeline tr1 @ (if a < retries then [Sleep (delay * 2 ^ nat (a - 1))] else [])"
    by simp_all
  have c2: "length (calls_of tr2) = Suc (length (calls_of tr))"
  proof -
    have "calls_of tr2 = calls_of (timeline tr2)" by simp
    also have "\<dots> = calls_of tr @ [req]" unfolding t2 t1 by simp
    finally show ?thesis by simp
  qed
  have p: "\<forall>a\<in>set as. 1 \<le> a" using Cons.prems(1) by simp
  have "\<forall>i<length as. parsed dec (client (length (calls_of tr2) + i) req) = None"
    using Cons.prems(2) c2 by auto
  from Cons.IH [OF p this] show ?case
    by (simp add: a1 b1 r1 r2 t1 t2)
qed

lemma retry_for_success:
  assumes att_fst: "\<And>a tr. fst (att a tr) = parsed dec (client (length (calls_of tr)) req)"
    and att_tl: "\<And>a tr. timeline (snd (att a tr)) = timeline tr @ [Call req]"
    and bo: "\<And>a tr. 1 \<le> a \<Longrightarrow> fst (bo a tr) = None \<and>
               timeline (snd (bo a tr)) =
                 timeline tr @ (if a < retries then [Sleep (delay * 2 ^ nat (a - 1))] else [])"
    and pos: "\<forall>a\<in>set pre. 1 \<le> a"
    and fails: "\<forall>i<length pre. parsed dec (client (length (calls_of tr) + i) req) = None"
    and ok: "parsed dec (client (length (calls_of tr) + length pre) req) = Some v"
  shows "fst (retry_for att bo m (pre @ a # post) tr) = Inr v \<and>
         timeline (snd (retry_for att bo m (pre @ a # post) tr)) =
           timeline tr @
           concat (map (\<lambda>k. Call req # (if k < retries then [Sleep (delay * 2 ^ nat (k - 1))] else [])) pre)
           @ [Call req]"
  using pos fails ok
proof (induction pre arbitrary: tr)
  case Nil
  obtain r1 tr1 where a1: "att a tr = (r1, tr1)" by (cases "att a tr")
  with att_fst [of a tr] Nil.prems have r1: "r1 = Some v" by simp
  from att_tl [of a tr] a1 have t1: "timeline tr1 = timeline tr @ [Call req]" by simp
  show ?case by (simp add: a1 r1 t1)
next
  case (Cons b pre)
  obtain r1 tr1 where a1: "att b tr = (r1, tr1)" by (cases "att b tr")
  obtain r2 tr2 where b1: "bo b tr1 = (r2, tr2)" by (cases "bo b tr1")
  have b: "1 \<le> b" using Cons.prems(1) by simp
  have "parsed dec (client (length (calls_of tr)) req) = None"
    using Cons.prems(2) by auto
  with att_fst [of b tr] a1 have r1: "r1 = None" by simp
  from att_tl [of b tr] a1 have t1: "timeline tr1 = timeline tr @ [Call req]" by simp
  from bo [OF b, of tr1] b1 have r2: "r2 = None"
    and t2: "timeline tr2 = timeline tr1 @ (if b < retries then [Sleep (delay * 2 ^ nat (b - 1))] else [])"
    by simp_all
  have c2: "length (calls_of tr2) = Suc (length (calls_of tr))"
  proof -
    have "calls_of tr2 = calls_of (timeline tr2)" by simp
    also have "\<dots> = calls_of tr @ [req]" unfolding t2 t1 by simp
    finally show ?thesis by simp
  qed
  have p: "\<forall>a\<in>set pre. 1 \<le> a" using Cons.prems(1) by simp
  have f: "\<forall>i<length pre. parsed dec (client (length (calls_of tr2) + i) req) = None"
    using Cons.prems(2) c2 by auto
  have s: "parsed dec (client (length (calls_of tr2) + length pre) req) = Some v"
    using Cons.prems(3) c2 by simp
  from Cons.IH [OF p f s] show ?case
    by (simp add: a1 b1 r1 r2 t1 t2)
qed

text \<open>
  What a run that returns has returned, whatever the backoff did: the value of the
  first attempt that does not fail, or the sentinel after all attempts failed.
\<close>

lemma retry_for_returns:
  assumes att_fst: "\<And>a tr. fst (att a tr) = parsed dec (client (length (calls_of tr)) req)"
    and att_tl: "\<And>a tr. timeline (snd (att a tr)) = timeline tr @ [Call req]"
    and bo_calls: "\<And>a tr. calls_of (snd (bo a tr)) = calls_of tr"
    and ret: "fst (retry_for att bo m as tr) = Inr v"
  shows "(\<exists>j<length as. (\<forall>i<j. parsed dec (client (length (calls_of tr) + i) req) = None) \<and>
            parsed dec (client (length (calls_of tr) + j) req) = Some v \<and>
            length (calls_of (snd (retry_for att bo m as tr))) = length (calls_of tr) + j + 1) \<or>
         ((\<forall>i<length as. parsed dec (client (length (calls_of tr) + i) req) = None) \<and> v = JNull \<and>
            length (calls_of (snd (retry_for att bo m as tr))) = length (calls_of tr) + length as)"
  using ret
proof (induction as arbitrary: tr)
  case Nil
  then show ?case by (simp add: print_def)
next
  case (Cons a as)
  obtain r1 tr1 where a1: "att a tr = (r1, tr1)" by (cases "att a tr")
  obtain r2 tr2 where b1: "bo a tr1 = (r2, tr2)" by (cases "bo a tr1")
  from att_fst [of a tr] a1 have r1: "r1 = parsed dec (client (length (calls_of tr)) req)" by simp
  from att_tl [of a tr] a1 have "timeline tr1 = timeline tr @ [Call req]" by simp
  then have c1: "calls_of tr1 = calls_of tr @ [req]" by (rule calls_of_after_call)
  from bo_calls [of a tr1] b1 have c2: "calls_of tr2 = calls_of tr1" by simp
  show ?case
  proof (cases r1)
    case (Some w)
    with Cons.prems a1 have "w = v" by simp
    with Some r1 a1 c1 have "parsed dec (client (length (calls_of tr) + 0) req) = Some v \<and>
        length (calls_of (snd (retry_for att bo m (a # as) tr))) = length (calls_of tr) + 0 + 1"
      by simp
    then show ?thesis by (intro disjI1 exI [of _ 0]) simp
  next
    case None
    with r1 have f0: "parsed dec (client (length (calls_of tr)) req) = None" by simp
    show ?thesis
    proof (cases r2)
      case (Some e)
      with Cons.prems a1 b1 None show ?thesis by simp
    next
      case n2: None
      have run: "retry_for att bo m (a # as) tr = retry_for att bo m as tr2"
        by (simp add: a1 b1 None n2)
      have len: "length (calls_of tr2) = Suc (length (calls_of tr))"
        by (simp add: c1 c2)
      from Cons.prems run have "fst (retry_for att bo m as tr2) = Inr v" by simp
      from Cons.IH [OF this]
      consider j where "j < length as"
          "\<forall>i<j. parsed dec (client (length (calls_of tr2) + i) req) = None"
          "parsed dec (client (length (calls_of tr2) + j) req) = Some v"
          "length (calls_of (snd (retry_for att bo m as tr2))) = length (calls_of tr2) + j + 1"
        | "\<forall>i<length as. parsed dec (client (length (calls_of tr2) + i) req) = None" "v = JNull"
          "length (calls_of (snd (retry_for att bo m as tr2))) = length (calls_of tr2) + length as"
        by blast
      then show ?thesis
      proof cases
        case 1
        have "\<forall>i<Suc j. parsed dec (client (length (calls_of tr) + i) req) = None"
        proof (intro allI impI)
          fix i assume "i < Suc j"
          show "parsed dec (client (length (calls_of tr) + i) req) = None"
          proof (cases i)
            case 0
            with f0 show ?thesis by simp
          next
            case (Suc i')
            with \<open>i < Suc j\<close> 1(2) len show ?thesis by simp
          qed
        qed
        moreover have "parsed dec (client (length (calls_of tr) + Suc j) req) = Some v"
          using 1(3) len by simp
        moreover have "length (calls_of (snd (retry_for att bo m (a # as) tr))) =
            length (calls_of tr) + Suc j + 1"
          using 1(4) len run by simp
        moreover have "Suc j < length (a # as)" using 1(1) by simp
        ultimately show ?thesis by blast
      next
        case 2
        have "\<forall>i<length (a # as). parsed dec (client (length (calls_of tr) + i) req) = None"
        proof (intro allI impI)
          fix i assume "i < length (a # as)"
          show "parsed dec (client (length (calls_of tr) + i) req) = None"
          proof (cases i)
            case 0
            with f0 show ?thesis by simp
          next
            case (Suc i')
            with \<open>i < length (a # as)\<close> 2(1) len show ?thesis by simp
          qed
        qed
        moreover have "length (calls_of (snd (retry_for att bo m (a # as) tr))) =
            length (calls_of tr) + length (a # as)"
          using 2(3) len run by simp
        ultimately show ?thesis using 2(2) by blast
      qed
    qed
  qed
qed

text \<open>A response that was received and parses is what the run returns.\<close>

lemma retry_for_received:
  assumes att_fst: "\<And>a tr. fst (att a tr) = parsed dec (client (length (calls_of tr)) req)"
    and att_tl: "\<And>a tr. timeline (snd (att a tr)) = timeline tr @ [Call req]"
    and bo_calls: "\<And>a tr. calls_of (snd (bo a tr)) = calls_of tr"
    and lo: "length (calls_of tr) \<le> k"
    and hi: "k < length (calls_of (snd (retry_for att bo m as tr)))"
    and ok: "parsed dec (client k req) = Some v"
  shows "fst (retry_for att bo m as tr) = Inr v"
  using lo hi
proof (induction as arbitrary: tr)
  case Nil
  then show ?case by (simp add: print_def)
next
  case (Cons a as)
  obtain r1 tr1 where a1: "att a tr = (r1, tr1)" by (cases "att a tr")
  obtain r2 tr2 where b1: "bo a tr1 = (r2, tr2)" by (cases "bo a tr1")
  from att_fst [of a tr] a1 have r1: "r1 = parsed dec (client (length (calls_of tr)) req)" by simp
  from att_tl [of a tr] a1 have "timeline tr1 = timeline tr @ [Call req]" by simp
  then have c1: "calls_of tr1 = calls_of tr @ [req]" by (rule calls_of_after_call)
  from bo_calls [of a tr1] b1 have c2: "calls_of tr2 = calls_of tr1" by simp
  show ?case
  proof (cases r1)
    case (Some w)
    with Cons.prems a1 c1 have "k = length (calls_of tr)" by simp
    with r1 Some ok have "w = v" by simp
    with Some a1 show ?thesis by simp
  next
    case None
    with r1 ok have "k \<noteq> length (calls_of tr)" by auto
    with Cons.prems(1) have lo': "length (calls_of tr2) \<le> k" by (simp add: c1 c2)
    show ?thesis
    proof (cases r2)
      case (Some e)
      with Cons.prems(2) a1 b1 None lo' show ?thesis by simp
    next
      case n2: None
      have run: "retry_for att bo m (a # as) tr = retry_for att bo m as tr2"
        by (simp add: a1 b1 None n2)
      with Cons.prems(2) have "k < length (calls_of (snd (retry_for att bo m as tr2)))" by simp
      from Cons.IH [OF lo' this] run show ?thesis by simp
    qed
  qed
qed

text \<open>Every call of a run sends the same request.\<close>

lemma retry_for_calls:
  assumes att: "\<And>a tr. timeline (snd (att a tr)) = timeline tr @ [Call req]"
    and bo: "\<And>a tr. calls_of (snd (bo a tr)) = calls_of tr"
  shows "set (calls_of (snd (retry_for att bo m as tr))) \<subseteq> set (calls_of tr) \<union> {req}"
proof (induction as arbitrary: tr)
  case Nil
  show ?case by (auto simp: print_def)
next
  case (Cons a as)
  obtain r1 tr1 where a1: "att a tr = (r1, tr1)" by (cases "att a tr")
  obtain r2 tr2 where b1: "bo a tr1 = (r2, tr2)" by (cases "bo a tr1")
  from att [of a tr] a1 have "timeline tr1 = timeline tr @ [Call req]" by simp
  then have c1: "calls_of tr1 = calls_of tr @ [req]" by (rule calls_of_after_call)
  from bo [of a tr1] b1 have c2: "calls_of tr2 = calls_of tr1" by simp
  show ?case
  proof (cases r1)
    case (Some v)
    then show ?thesis by (simp add: a1 c1)
  next
    case None
    show ?thesis
    proof (cases r2)
      case (Some e)
      then show ?thesis by (simp add: a1 b1 None c1 c2)
    next
      case n2: None
      from Cons.IH [of tr2] show ?thesis
        by (auto simp: a1 b1 None n2 c1 c2)
    qed
  qed
qed

section \<open>The schedule of a run\<close>









lemma backoff_schedule_prefix:
  assumes "0 \<le> k" "k < n"
  shows "concat (map (\<lambda>j. Call req # (if j < n then [Sleep (d * 2 ^ nat (j - 1))] else [])) [1..k])
           @ [Call req] = backoff_schedule req d (k + 1)"
proof -
  let ?f = "\<lambda>j. Call req # (if j < n then [Sleep (d * 2 ^ nat (j - 1))] else [])"
  let ?g = "\<lambda>j. Call req # (if j < k + 1 then [Sleep (d * 2 ^ nat (j - 1))] else [])"
  have split: "[1..k + 1] = [1..k] @ [k + 1]"
    using assms(1) by (simp add: upto_rec2)
  have same: "map ?g [1..k] = map ?f [1..k]"
    using assms(2) by (intro map_cong) auto
  have "backoff_schedule req d (k + 1) = concat (map ?g [1..k]) @ ?g (k + 1)"
    unfolding backoff_schedule_def split by simp
  also have "?g (k + 1) = [Call req]" by simp
  finally show ?thesis unfolding same by (rule sym)
qed

lemma retry_for_run:
  assumes att_fst: "\<And>a tr. fst (att a tr) = parsed dec (client (length (calls_of tr)) req)"
    and att_tl: "\<And>a tr. timeline (snd (att a tr)) = timeline tr @ [Call req]"
    and bo: "\<And>a tr. 1 \<le> a \<Longrightarrow> fst (bo a tr) = None \<and>
               timeline (snd (bo a tr)) =
                 timeline tr @ (if a < retries then [Sleep (delay * 2 ^ nat (a - 1))] else [])"
  shows "(\<exists>k v. k < nat retries \<and> (\<forall>i<k. parsed dec (client i req) = None) \<and>
            parsed dec (client k req) = Some v \<and>
            fst (retry_for att bo m [1..retries] []) = Inr v \<and>
            timeline (snd (retry_for att bo m [1..retries] [])) =
              backoff_schedule req delay (int k + 1)) \<or>
         ((\<forall>i<nat retries. parsed dec (client i req) = None) \<and>
            fst (retry_for att bo m [1..retries] []) = Inr JNull \<and>
            timeline (snd (retry_for att bo m [1..retries] [])) =
              backoff_schedule req delay retries)"
proof (cases "\<forall>i<nat retries. parsed dec (client i req) = None")
  case True
  then have f: "\<forall>i<length [1..retries]. parsed dec (client (length (calls_of []) + i) req) = None"
    by simp
  have p: "\<forall>a\<in>set [1..retries]. 1 \<le> a" by simp
  from retry_for_all_fail [of att dec client req bo retries delay "[1..retries]" "[]" m,
      OF att_fst att_tl bo p f] True
  show ?thesis by (simp add: backoff_schedule_def)
next
  case False
  let ?P = "\<lambda>k. k < nat retries \<and> parsed dec (client k req) \<noteq> None"
  from False have "\<exists>k. ?P k" by auto
  then have "\<exists>k. ?P k \<and> (\<forall>i<k. \<not> ?P i)"
    by (rule iffD1 [OF exists_least_iff])
  then obtain k where k: "k < nat retries" "parsed dec (client k req) \<noteq> None"
    and least: "\<forall>i<k. \<not> ?P i"
    by blast
  from k(2) obtain v where v: "parsed dec (client k req) = Some v" by auto
  have before: "\<forall>i<k. parsed dec (client i req) = None"
    using least k(1) by auto
  have split: "[1..retries] = [1..int k] @ (int k + 1) # [int k + 2..retries]"
    using k(1) upto_split3 [of 1 "int k + 1" retries] by (simp add: add.commute)
  have p: "\<forall>a\<in>set [1..int k]. 1 \<le> a" by simp
  have f: "\<forall>i<length [1..int k]. parsed dec (client (length (calls_of []) + i) req) = None"
    using before by simp
  have s: "parsed dec (client (length (calls_of []) + length [1..int k]) req) = Some v"
    using v by simp
  have sched: "concat (map (\<lambda>j. Call req # (if j < retries then [Sleep (delay * 2 ^ nat (j - 1))] else []))
                 [1..int k]) @ [Call req] = backoff_schedule req delay (int k + 1)"
    using k(1) by (intro backoff_schedule_prefix) auto
  from retry_for_success [of att dec client req bo retries delay "[1..int k]" "[]" v m
      "int k + 1" "[int k + 2..retries]", OF att_fst att_tl bo p f s]
  have "fst (retry_for att bo m [1..retries] []) = Inr v \<and>
        timeline (snd (retry_for att bo m [1..retries] [])) = backoff_schedule req delay (int k + 1)"
    unfolding split [symmetric] using sched by simp
  with k(1) before v show ?thesis by blast
qed


lemma retry_for_upto_success:
  assumes att_fst: "\<And>a tr. fst (att a tr) = parsed dec (client (length (calls_of tr)) req)"
    and att_tl: "\<And>a tr. timeline (snd (att a tr)) = timeline tr @ [Call req]"
    and bo: "\<And>a tr. 1 \<le> a \<Longrightarrow> fst (bo a tr) = None \<and>
               timeline (snd (bo a tr)) =
                 timeline tr @ (if a < retries then [Sleep (delay * 2 ^ nat (a - 1))] else [])"
    and k: "k < nat retries"
    and fails: "\<forall>i<k. parsed dec (client i req) = None"
    and ok: "parsed dec (client k req) = Some v"
  shows "fst (retry_for att bo m [1..retries] []) = Inr v \<and>
         timeline (snd (retry_for att bo m [1..retries] [])) = backoff_schedule req delay (int k + 1)"
proof -
  from retry_for_run [of att dec client req bo retries delay m, OF att_fst att_tl bo] k ok
  obtain k' v' where k': "k' < nat retries" "\<forall>i<k'. parsed dec (client i req) = None"
      "parsed dec (client k' req) = Some v'"
    and run: "fst (retry_for att bo m [1..retries] []) = Inr v'"
      "timeline (snd (retry_for att bo m [1..retries] [])) = backoff_schedule req delay (int k' + 1)"
    by auto
  have "\<not> k' < k" using fails k'(3) by auto
  moreover have "\<not> k < k'" using k'(2) ok by auto
  ultimately have "k' = k" by simp
  with k'(3) ok run show ?thesis by simp
qed


lemma parsed_None_iff: "parsed dec out = None \<longleftrightarrow> failure_of dec out \<noteq> None"
  by (auto simp: parsed_def failure_of_def truthy_def json_loads_def
      split: outcome.splits option.splits sum.splits)

lemma parsed_Returns:
  "json_loads dec (Some body) = Inr v \<Longrightarrow> parsed dec (Returns (Some body)) = Some v"
  by (simp add: parsed_def)


lemma retry_for_single:
  assumes att_fst: "\<And>a tr. fst (att a tr) = parsed dec (client (length (calls_of tr)) req)"
    and att_tl: "\<And>a tr. timeline (snd (att a tr)) = timeline tr @ [Call req]"
    and bo: "\<And>tr. bo 1 tr = (None, tr)"
  shows "fst (retry_for att bo m [1] []) =
           Inr (case parsed dec (client 0 req) of Some v \<Rightarrow> v | None \<Rightarrow> JNull) \<and>
         timeline (snd (retry_for att bo m [1] [])) = [Call req]"
proof -
  obtain r1 tr1 where a1: "att 1 [] = (r1, tr1)" by (cases "att 1 []")
  from att_fst [of 1 "[]"] a1 have r1: "r1 = parsed dec (client 0 req)" by simp
  from att_tl [of 1 "[]"] a1 have t1: "timeline tr1 = [Call req]" by simp
  show ?thesis
    by (cases r1) (use r1 in \<open>simp_all add: a1 bo t1 print_def\<close>)
qed

lemma upto_default_retries: "[1..default_retries] = [1]"
  by (simp add: default_retries_def upto_rec1)

lemma calls_sleeps_of_single:
  "timeline tr = [Call req] \<Longrightarrow> calls_of tr = [req] \<and> sleeps_of tr = []"
  using calls_of_timeline [of tr] sleeps_of_timeline [of tr] by simp

lemma retry_for_first_success:
  assumes att_fst: "\<And>a tr. fst (att a tr) = parsed dec (client (length (calls_of tr)) req)"
    and "1 \<le> retries" "parsed dec (client 0 req) = Some v"
  shows "fst (retry_for att bo m [1..retries] []) = Inr v"
proof -
  have u: "[1..retries] = 1 # [2..retries]"
    using assms(2) by (simp add: upto_rec1)
  obtain r1 tr1 where a1: "att 1 [] = (r1, tr1)" by (cases "att 1 []")
  with att_fst [of 1 "[]"] assms(3) have "r1 = Some v" by simp
  with a1 show ?thesis by (simp add: u)
qed

text \<open>
  A first attempt that fails, a budget that asks for a second, and a wait that
  \<^verbatim>\<open>time.sleep\<close> refuses outright: the exception leaves the function after one call.
\<close>

lemma retry_for_refused:
  assumes att_fst: "\<And>a tr. fst (att a tr) = parsed dec (client (length (calls_of tr)) req)"
    and att_tl: "\<And>a tr. timeline (snd (att a tr)) = timeline tr @ [Call req]"
    and bo: "\<And>tr. fst (bo 1 tr) = Some e \<and> timeline (snd (bo 1 tr)) = timeline tr"
    and "1 \<le> retries" "parsed dec (client 0 req) = None"
  shows "fst (retry_for att bo m [1..retries] []) = Inl e \<and>
         timeline (snd (retry_for att bo m [1..retries] [])) = [Call req]"
proof -
  have u: "[1..retries] = 1 # [2..retries]"
    using assms(4) by (simp add: upto_rec1)
  obtain r1 tr1 where a1: "att 1 [] = (r1, tr1)" by (cases "att 1 []")
  obtain r2 tr2 where b1: "bo 1 tr1 = (r2, tr2)" by (cases "bo 1 tr1")
  from att_fst [of 1 "[]"] a1 assms(5) have r1: "r1 = None" by simp
  from att_tl [of 1 "[]"] a1 have t1: "timeline tr1 = [Call req]" by simp
  from bo [of tr1] b1 have r2: "r2 = Some e" and t2: "timeline tr2 = timeline tr1" by simp_all
  show ?thesis by (simp add: u a1 b1 r1 r2 t1 t2)
qed

section \<open>The runs of stage 1\<close>

lemma subtopics_loop_retry_for:
  "subtopics_loop client dec clock req retries delay as tr =
     retry_for (subtopics_attempt client dec req) (subtopics_backoff clock retries delay) MaxRetriesSubtopics as tr"
  by (induction as arbitrary: tr) (simp_all split: prod.splits option.splits)

lemma subtopics_attempt_fst:
  "fst (subtopics_attempt client dec req a tr) = parsed dec (client (length (calls_of tr)) req)"
  by (auto simp: subtopics_attempt_def generate_content_def parsed_def truthy_def json_loads_def
      split: outcome.splits option.splits sum.splits)

lemma subtopics_attempt_timeline:
  "timeline (snd (subtopics_attempt client dec req a tr)) = timeline tr @ [Call req]"
  by (auto simp: subtopics_attempt_def generate_content_def subtopics_handler_def print_def
      split: outcome.splits option.splits sum.splits)

lemma subtopics_backoff_ok:
  assumes "waits_accepted clock retries delay" "1 \<le> a"
  shows "fst (subtopics_backoff clock retries delay a tr) = None \<and>
     timeline (snd (subtopics_backoff clock retries delay a tr)) =
       timeline tr @ (if a < retries then [Sleep (delay * 2 ^ nat (a - 1))] else [])"
proof (cases "a < retries")
  case True
  from waits_acceptedD [OF assms True] show ?thesis
    by (simp add: subtopics_backoff_def Let_def True time_sleep_accepted print_def)
next
  case False
  then show ?thesis by (simp add: subtopics_backoff_def)
qed

lemma subtopics_backoff_calls:
  "calls_of (snd (subtopics_backoff clock retries delay a tr)) = calls_of tr"
  by (simp add: subtopics_backoff_def Let_def time_sleep_calls print_def)



lemma subtopics_success:
  assumes "waits_accepted clock retries delay" "k < nat retries"
    and "\<forall>i<k. parsed dec (client i (subtopics_request q)) = None"
    and "parsed dec (client k (subtopics_request q)) = Some v"
  shows "fst (generate_subtopics client dec clock q retries delay) = Inr v \<and>
         timeline (snd (generate_subtopics client dec clock q retries delay)) = backoff_schedule (subtopics_request q) delay (int k + 1)"
  unfolding generate_subtopics_def subtopics_loop_retry_for
  by (rule retry_for_upto_success [where client = client and dec = dec])
     (simp_all add: subtopics_attempt_fst subtopics_attempt_timeline subtopics_backoff_ok assms)



lemma subtopics_received:
  assumes "k < length (calls_of (snd (generate_subtopics client dec clock q retries delay)))"
    and "parsed dec (client k (subtopics_request q)) = Some v"
  shows "fst (generate_subtopics client dec clock q retries delay) = Inr v"
  using retry_for_received [of "subtopics_attempt client dec (subtopics_request q)" dec client "subtopics_request q"
      "subtopics_backoff clock retries delay" "[]" k MaxRetriesSubtopics "[1..retries]" v,
      OF subtopics_attempt_fst subtopics_attempt_timeline subtopics_backoff_calls] assms
  unfolding generate_subtopics_def subtopics_loop_retry_for by simp

lemma subtopics_calls:
  "set (calls_of (snd (generate_subtopics client dec clock q retries delay))) \<subseteq> {subtopics_request q}"
proof -
  have "set (calls_of (snd (retry_for (subtopics_attempt client dec (subtopics_request q))
      (subtopics_backoff clock retries delay) MaxRetriesSubtopics [1..retries] []))) \<subseteq>
      set (calls_of []) \<union> {subtopics_request q}"
    by (intro retry_for_calls) (simp_all add: subtopics_attempt_timeline subtopics_backoff_calls)
  then show ?thesis
    unfolding generate_subtopics_def subtopics_loop_retry_for by simp
qed

lemma subtopics_single:
  "fst (generate_subtopics client dec clock q default_retries delay) =
     Inr (case parsed dec (client 0 (subtopics_request q)) of Some v \<Rightarrow> v | None \<Rightarrow> JNull) \<and>
   timeline (snd (generate_subtopics client dec clock q default_retries delay)) = [Call (subtopics_request q)]"
  unfolding generate_subtopics_def subtopics_loop_retry_for upto_default_retries
  by (rule retry_for_single [OF subtopics_attempt_fst subtopics_attempt_timeline])
     (simp add: subtopics_backoff_def default_retries_def)

lemma subtopics_first_success:
  assumes "1 \<le> retries" "parsed dec (client 0 (subtopics_request q)) = Some v"
  shows "fst (generate_subtopics client dec clock q retries delay) = Inr v"
  unfolding generate_subtopics_def subtopics_loop_retry_for
  by (rule retry_for_first_success [where client = client and dec = dec and req = "subtopics_request q"])
     (simp_all add: subtopics_attempt_fst assms)


section \<open>The runs of stage 2\<close>

lemma explanation_loop_retry_for:
  "explanation_loop client dec clock req retries delay as tr =
     retry_for (explanation_attempt client dec req) (explanation_backoff clock retries delay) MaxRetriesExplanation as tr"
  by (induction as arbitrary: tr) (simp_all split: prod.splits option.splits)

lemma explanation_attempt_fst:
  "fst (explanation_attempt client dec req a tr) = parsed dec (client (length (calls_of tr)) req)"
  by (auto simp: explanation_attempt_def generate_content_def parsed_def truthy_def json_loads_def
      split: outcome.splits option.splits sum.splits)

lemma explanation_attempt_timeline:
  "timeline (snd (explanation_attempt client dec req a tr)) = timeline tr @ [Call req]"
  by (auto simp: explanation_attempt_def generate_content_def print_def
      split: outcome.splits option.splits sum.splits)

lemma explanation_backoff_ok:
  assumes "waits_accepted clock retries delay" "1 \<le> a"
  shows "fst (explanation_backoff clock retries delay a tr) = None \<and>
     timeline (snd (explanation_backoff clock retries delay a tr)) =
       timeline tr @ (if a < retries then [Sleep (delay * 2 ^ nat (a - 1))] else [])"
proof (cases "a < retries")
  case True
  from waits_acceptedD [OF assms True] show ?thesis
    by (simp add: explanation_backoff_def Let_def True time_sleep_accepted print_def)
next
  case False
  then show ?thesis by (simp add: explanation_backoff_def)
qed

lemma explanation_backoff_calls:
  "calls_of (snd (explanation_backoff clock retries delay a tr)) = calls_of tr"
  by (simp add: explanation_backoff_def Let_def time_sleep_calls print_def)

lemma explanation_backoff_refused:
  assumes "1 < retries" "delay < 0 \<or> 9223372037 \<le> delay"
  shows "fst (explanation_backoff clock retries delay 1 tr) =
           Some (if delay < 0 then ValueError else OverflowError) \<and>
         timeline (snd (explanation_backoff clock retries delay 1 tr)) = timeline tr"
  using assms by (auto simp: explanation_backoff_def Let_def time_sleep_def print_def)


lemma explanation_success:
  assumes "waits_accepted clock retries delay" "k < nat retries"
    and "\<forall>i<k. parsed dec (client i (explanation_request subtopic q)) = None"
    and "parsed dec (client k (explanation_request subtopic q)) = Some v"
  shows "fst (generate_explanation_and_activity client dec clock subtopic q retries delay) = Inr v \<and>
         timeline (snd (generate_explanation_and_activity client dec clock subtopic q retries delay)) = backoff_schedule (explanation_request subtopic q) delay (int k + 1)"
  unfolding generate_explanation_and_activity_def explanation_loop_retry_for
  by (rule retry_for_upto_success [where client = client and dec = dec])
     (simp_all add: explanation_attempt_fst explanation_attempt_timeline explanation_backoff_ok assms)


lemma explanation_returns:
  assumes "fst (generate_explanation_and_activity client dec clock subtopic q retries delay) = Inr v"
  shows "(\<exists>j<nat retries. (\<forall>i<j. parsed dec (client i (explanation_request subtopic q)) = None) \<and>
            parsed dec (client j (explanation_request subtopic q)) = Some v \<and>
            length (calls_of (snd (generate_explanation_and_activity client dec clock subtopic q retries delay))) = j + 1) \<or>
         ((\<forall>i<nat retries. parsed dec (client i (explanation_request subtopic q)) = None) \<and> v = JNull \<and>
            length (calls_of (snd (generate_explanation_and_activity client dec clock subtopic q retries delay))) = nat retries)"
  using retry_for_returns [of "explanation_attempt client dec (explanation_request subtopic q)" dec client "explanation_request subtopic q"
      "explanation_backoff clock retries delay" MaxRetriesExplanation "[1..retries]" "[]" v,
      OF explanation_attempt_fst explanation_attempt_timeline explanation_backoff_calls] assms
  unfolding generate_explanation_and_activity_def explanation_loop_retry_for by simp

lemma explanation_received:
  assumes "k < length (calls_of (snd (generate_explanation_and_activity client dec clock subtopic q retries delay)))"
    and "parsed dec (client k (explanation_request subtopic q)) = Some v"
  shows "fst (generate_explanation_and_activity client dec clock subtopic q retries delay) = Inr v"
  using retry_for_received [of "explanation_attempt client dec (explanation_request subtopic q)" dec client "explanation_request subtopic q"
      "explanation_backoff clock retries delay" "[]" k MaxRetriesExplanation "[1..retries]" v,
      OF explanation_attempt_fst explanation_attempt_timeline explanation_backoff_calls] assms
  unfolding generate_explanation_and_activity_def explanation_loop_retry_for by simp

lemma explanation_calls:
  "set (calls_of (snd (generate_explanation_and_activity client dec clock subtopic q retries delay))) \<subseteq> {explanation_request subtopic q}"
proof -
  have "set (calls_of (snd (retry_for (explanation_attempt client dec (explanation_request subtopic q))
      (explanation_backoff clock retries delay) MaxRetriesExplanation [1..retries] []))) \<subseteq>
      set (calls_of []) \<union> {explanation_request subtopic q}"
    by (intro retry_for_calls) (simp_all add: explanation_attempt_timeline explanation_backoff_calls)
  then show ?thesis
    unfolding generate_explanation_and_activity_def explanation_loop_retry_for by simp
qed

lemma explanation_single:
  "fst (generate_explanation_and_activity client dec clock subtopic q default_retries delay) =
     Inr (case parsed dec (client 0 (explanation_request subtopic q)) of Some v \<Rightarrow> v | None \<Rightarrow> JNull) \<and>
   timeline (snd (generate_explanation_and_activity client dec clock subtopic q default_retries delay)) = [Call (explanation_request subtopic q)]"
  unfolding generate_explanation_and_activity_def explanation_loop_retry_for upto_default_retries
  by (rule retry_for_single [OF explanation_attempt_fst explanation_attempt_timeline])
     (simp add: explanation_backoff_def default_retries_def)

lemma explanation_first_success:
  assumes "1 \<le> retries" "parsed dec (client 0 (explanation_request subtopic q)) = Some v"
  shows "fst (generate_explanation_and_activity client dec clock subtopic q retries delay) = Inr v"
  unfolding generate_explanation_and_activity_def explanation_loop_retry_for
  by (rule retry_for_first_success [where client = client and dec = dec and req = "explanation_request subtopic q"])
     (simp_all add: explanation_attempt_fst assms)

lemma explanation_refused:
  assumes "1 < retries" "delay < 0 \<or> 9223372037 \<le> delay"
    and "parsed dec (client 0 (explanation_request subtopic q)) = None"
  shows "fst (generate_explanation_and_activity client dec clock subtopic q retries delay) = Inl (if delay < 0 then ValueError else OverflowError) \<and>
         timeline (snd (generate_explanation_and_activity client dec clock subtopic q retries delay)) = [Call (explanation_request subtopic q)]"
  unfolding generate_explanation_and_activity_def explanation_loop_retry_for
  by (rule retry_for_refused [where client = client and dec = dec])
     (use assms in \<open>simp_all add: explanation_attempt_fst explanation_attempt_timeline explanation_backoff_refused\<close>)

section \<open>The runs of stage 3\<close>

lemma activity_loop_retry_for:
  "activity_loop client dec clock req retries delay as tr =
     retry_for (activity_attempt client dec req) (activity_backoff clock retries delay) MaxRetriesActivity as tr"
  by (induction as arbitrary: tr) (simp_all split: prod.splits option.splits)

lemma activity_attempt_fst:
  "fst (activity_attempt client dec req a tr) = parsed dec (client (length (calls_of tr)) req)"
  by (auto simp: activity_attempt_def generate_content_def parsed_def truthy_def json_loads_def
      split: outcome.splits option.splits sum.splits)

lemma activity_attempt_timeline:
  "timeline (snd (activity_attempt client dec req a tr)) = timeline tr @ [Call req]"
  by (auto simp: activity_attempt_def generate_content_def print_def
      split: outcome.splits option.splits sum.splits)

lemma activity_backoff_ok:
  assumes "waits_accepted clock retries delay" "1 \<le> a"
  shows "fst (activity_backoff clock retries delay a tr) = None \<and>
     timeline (snd (activity_backoff clock retries delay a tr)) =
       timeline tr @ (if a < retries then [Sleep (delay * 2 ^ nat (a - 1))] else [])"
proof (cases "a < retries")
  case True
  from waits_acceptedD [OF assms True] show ?thesis
    by (simp add: activity_backoff_def Let_def True time_sleep_accepted print_def)
next
  case False
  then show ?thesis by (simp add: activity_backoff_def)
qed

lemma activity_backoff_calls:
  "calls_of (snd (activity_backoff clock retries delay a tr)) = calls_of tr"
  by (simp add: activity_backoff_def Let_def time_sleep_calls print_def)

lemma activity_backoff_refused:
  assumes "1 < retries" "delay < 0 \<or> 9223372037 \<le> delay"
  shows "fst (activity_backoff clock retries delay 1 tr) =
           Some (if delay < 0 then ValueError else OverflowError) \<and>
         timeline (snd (activity_backoff clock retries delay 1 tr)) = timeline tr"
  using assms by (auto simp: activity_backoff_def Let_def time_sleep_def print_def)


lemma activity_success:
  assumes "waits_accepted clock retries delay" "k < nat retries"
    and "\<forall>i<k. parsed dec (client i (activity_request topic explanation template_type)) = None"
    and "parsed dec (client k (activity_request topic explanation template_type)) = Some v"
  shows "fst (generate_interactive_activity client dec clock topic explanation template_type retries delay) = Inr v \<and>
         timeline (snd (generate_interactive_activity client dec clock topic explanation template_type retries delay)) = backoff_schedule (activity_request topic explanation template_type) delay (int k + 1)"
  unfolding generate_interactive_activity_def activity_loop_retry_for
  by (rule retry_for_upto_success [where client = client and dec = dec])
     (simp_all add: activity_attempt_fst activity_attempt_timeline activity_backoff_ok assms)


lemma activity_returns:
  assumes "fst (generate_interactive_activity client dec clock topic explanation template_type retries delay) = Inr v"
  shows "(\<exists>j<nat retries. (\<forall>i<j. parsed dec (client i (activity_request topic explanation template_type)) = None) \<and>
            parsed dec (client j (activity_request topic explanation template_type)) = Some v \<and>
            length (calls_of (snd (generate_interactive_activity client dec clock topic explanation template_type retries delay))) = j + 1) \<or>
         ((\<forall>i<nat retries. parsed dec (client i (activity_request topic explanation template_type)) = None) \<and> v = JNull \<and>
            length (calls_of (snd (generate_interactive_activity client dec clock topic explanation template_type retries delay))) = nat retries)"
  using retry_for_returns [of "activity_attempt client dec (activity_request topic explanation template_type)" dec client "activity_request topic explanation template_type"
      "activity_backoff clock retries delay" MaxRetriesActivity "[1..retries]" "[]" v,
      OF activity_attempt_fst activity_attempt_timeline activity_backoff_calls] assms
  unfolding generate_interactive_activity_def activity_loop_retry_for by simp

lemma activity_received:
  assumes "k < length (calls_of (snd (generate_interactive_activity client dec clock topic explanation template_type retries delay)))"
    and "parsed dec (client k (activity_request topic explanation template_type)) = Some v"
  shows "fst (generate_interactive_activity client dec clock topic explanation template_type retries delay) = Inr v"
  using retry_for_received [of "activity_attempt client dec (activity_request topic explanation template_type)" dec client "activity_request topic explanation template_type"
      "activity_backoff clock retries delay" "[]" k MaxRetriesActivity "[1..retries]" v,
      OF activity_attempt_fst activity_attempt_timeline activity_backoff_calls] assms
  unfolding generate_interactive_activity_def activity_loop_retry_for by simp

lemma activity_calls:
  "set (calls_of (snd (generate_interactive_activity client dec clock topic explanation template_type retries delay))) \<subseteq> {activity_request topic explanation template_type}"
proof -
  have "set (calls_of (snd (retry_for (activity_attempt client dec (activity_request topic explanation template_type))
      (activity_backoff clock retries delay) MaxRetriesActivity [1..retries] []))) \<subseteq>
      set (calls_of []) \<union> {activity_request topic explanation template_type}"
    by (intro retry_for_calls) (simp_all add: activity_attempt_timeline activity_backoff_calls)
  then show ?thesis
    unfolding generate_interactive_activity_def activity_loop_retry_for by simp
qed

lemma activity_single:
  "fst (generate_interactive_activity client dec clock topic explanation template_type default_retries delay) =
     Inr (case parsed dec (client 0 (activity_request topic explanation template_type)) of Some v \<Rightarrow> v | None \<Rightarrow> JNull) \<and>
   timeline (snd (generate_interactive_activity client dec clock topic explanation template_type default_retries delay)) = [Call (activity_request topic explanation template_type)]"
  unfolding generate_interactive_activity_def activity_loop_retry_for upto_default_retries
  by (rule retry_for_single [OF activity_attempt_fst activity_attempt_timeline])
     (simp add: activity_backoff_def default_retries_def)

lemma activity_first_success:
  assumes "1 \<le> retries" "parsed dec (client 0 (activity_request topic explanation template_type)) = Some v"
  shows "fst (generate_interactive_activity client dec clock topic explanation template_type retries delay) = Inr v"
  unfolding generate_interactive_activity_def activity_loop_retry_for
  by (rule retry_for_first_success [where client = client and dec = dec and req = "activity_request topic explanation template_type"])
     (simp_all add: activity_attempt_fst assms)

lemma activity_refused:
  assumes "1 < retries" "delay < 0 \<or> 9223372037 \<le> delay"
    and "parsed dec (client 0 (activity_request topic explanation template_type)) = None"
  shows "fst (generate_interactive_activity client dec clock topic explanation template_type retries delay) = Inl (if delay < 0 then ValueError else OverflowError) \<and>
         timeline (snd (generate_interactive_activity client dec clock topic explanation template_type retries delay)) = [Call (activity_request topic explanation template_type)]"
  unfolding generate_interactive_activity_def activity_loop_retry_for
  by (rule retry_for_refused [where client = client and dec = dec])
     (use assms in \<open>simp_all add: activity_attempt_fst activity_attempt_timeline activity_backoff_refused\<close>)

section \<open>The sample decoder\<close>

lemma sample_decoder_simps:
  "json_loads sample_decoder (Some match_without_pairs_body) = Inr match_without_pairs"
  "json_loads sample_decoder (Some stray_answer_body) = Inr stray_answer"
  "json_loads sample_decoder (Some dangling_element_body) = Inr dangling_element"
  "json_loads sample_decoder (Some ''{}'') = Inr (JObject [])"
  "json_loads sample_decoder (Some ''null'') = Inr JNull"
  by (simp_all add: json_loads_def sample_decoder_def decoder_of_table_def
      match_without_pairs_body_def stray_answer_body_def dangling_element_body_def)

lemma willing_clock_accepted:
  "0 \<le> delay \<Longrightarrow> delay * 2 ^ nat (retries - 2) < 9223372037 \<Longrightarrow>
     waits_accepted willing_clock retries delay"
  by (rule waits_acceptedI) (simp_all add: willing_clock_def)

section \<open>The claims\<close>













text \<open>
  C5. Stage 3 returns the value that \<^verbatim>\<open>json.loads\<close> gives for a body it receives,
  exactly as the parser produced it and whatever its shape: nothing between the parser
  and the \<^verbatim>\<open>return\<close> looks at the value. This holds of every response the run
  receives (the call with that response was made), of the first response when the budget
  is at least 1, and of response \<open>k + 1\<close> when the \<open>k\<close> attempts before it fail and the
  waits between them are lengths \<^verbatim>\<open>time.sleep\<close> accepts. The sample run returns a
  \<open>match\<close> activity without \<open>pairs\<close>, a \<open>fill_in_blanks\<close> activity whose answer is not
  among the candidates, and a \<open>drag_drop\<close> activity whose blank names no draggable
  element.
\<close>

theorem activity_returned_as_parsed:
  assumes "client k (activity_request topic explanation template_type) = Returns (Some body)"
    and "json_loads dec (Some body) = Inr v"
  shows "(k < length (calls_of (snd (generate_interactive_activity client dec clock topic explanation
              template_type retries delay))) \<longrightarrow>
            fst (generate_interactive_activity client dec clock topic explanation template_type
              retries delay) = Inr v) \<and>
         (k = 0 \<and> 1 \<le> retries \<longrightarrow>
            fst (generate_interactive_activity client dec clock topic explanation template_type
              retries delay) = Inr v) \<and>
         (waits_accepted clock retries delay \<and> k < nat retries \<and>
          (\<forall>i<k. failure_of dec (client i (activity_request topic explanation template_type)) \<noteq> None)
            \<longrightarrow>
            fst (generate_interactive_activity client dec clock topic explanation template_type
              retries delay) = Inr v)"
proof -
  have s: "parsed dec (client k (activity_request topic explanation template_type)) = Some v"
    using assms by (simp add: parsed_Returns)
  show ?thesis
  proof (intro conjI impI)
    assume "k < length (calls_of (snd (generate_interactive_activity client dec clock topic
      explanation template_type retries delay)))"
    from activity_received [OF this s]
    show "fst (generate_interactive_activity client dec clock topic explanation template_type
      retries delay) = Inr v" .
  next
    assume "k = 0 \<and> 1 \<le> retries"
    with s show "fst (generate_interactive_activity client dec clock topic explanation
      template_type retries delay) = Inr v"
      by (intro activity_first_success) simp_all
  next
    assume a: "waits_accepted clock retries delay \<and> k < nat retries \<and>
      (\<forall>i<k. failure_of dec (client i (activity_request topic explanation template_type)) \<noteq> None)"
    then have f: "\<forall>i<k. parsed dec (client i (activity_request topic explanation template_type))
        = None"
      by (simp add: parsed_None_iff)
    from a activity_success [where client = client and dec = dec, OF _ _ f s]
    show "fst (generate_interactive_activity client dec clock topic explanation template_type
      retries delay) = Inr v"
      by simp
  qed
qed

theorem activity_returned_as_parsed_witness:
  "fst (generate_interactive_activity (scripted [Raises APIError] (Returns (Some match_without_pairs_body)))
          sample_decoder willing_clock ''Photosynthesis'' ''Plants turn light into sugar.''
          ''match_pairs'' 2 3)
     = Inr match_without_pairs \<and> \<not> has_pairs match_without_pairs \<and>
   fst (generate_interactive_activity (scripted [Raises APIError] (Returns (Some stray_answer_body)))
          sample_decoder willing_clock ''Photosynthesis'' ''Plants turn light into sugar.''
          ''fill_blanks'' 2 3)
     = Inr stray_answer \<and> \<not> fill_blanks_invariant stray_answer \<and>
   fst (generate_interactive_activity (scripted [] (Returns (Some dangling_element_body)))
          sample_decoder willing_clock ''Photosynthesis'' ''Plants turn light into sugar.''
          ''drag_drop'' 1 10000000000)
     = Inr dangling_element \<and> \<not> drag_drop_invariant dangling_element"
proof -
  have w: "waits_accepted willing_clock 2 3"
    by (rule willing_clock_accepted) simp_all
  have k: "(1::nat) < nat 2" by simp
  have f: "\<forall>i<1. failure_of sample_decoder (scripted [Raises APIError] rest i req) \<noteq> None"
    for rest req
    by (simp add: scripted_def failure_of_def)
  have s: "scripted [Raises APIError] rest 1 req = rest" for rest req
    by (simp add: scripted_def)
  have s0: "scripted [] rest 0 req = rest" for rest req
    by (simp add: scripted_def)
  have shapes: "\<not> has_pairs match_without_pairs" "\<not> fill_blanks_invariant stray_answer"
    "\<not> drag_drop_invariant dangling_element"
    by (simp_all add: has_pairs_def fill_blanks_invariant_def drag_drop_invariant_def json_get_def
        match_without_pairs_def stray_answer_def dangling_element_def answer_among_def
        refers_to_def)
  from activity_returned_as_parsed [where client = "scripted [Raises APIError] (Returns (Some match_without_pairs_body))" and k = 1
      and topic = "''Photosynthesis''" and explanation = "''Plants turn light into sugar.''"
      and template_type = "''match_pairs''" and clock = willing_clock and retries = 2 and delay = 3,
      OF s sample_decoder_simps(1)] w k f
  have one: "fst (generate_interactive_activity
      (scripted [Raises APIError] (Returns (Some match_without_pairs_body))) sample_decoder
      willing_clock ''Photosynthesis'' ''Plants turn light into sugar.'' ''match_pairs'' 2 3)
      = Inr match_without_pairs"
    by blast
  from activity_returned_as_parsed [where client = "scripted [Raises APIError] (Returns (Some stray_answer_body))" and k = 1
      and topic = "''Photosynthesis''" and explanation = "''Plants turn light into sugar.''"
      and template_type = "''fill_blanks''" and clock = willing_clock and retries = 2 and delay = 3,
      OF s sample_decoder_simps(2)] w k f
  have two: "fst (generate_interactive_activity
      (scripted [Raises APIError] (Returns (Some stray_answer_body))) sample_decoder
      willing_clock ''Photosynthesis'' ''Plants turn light into sugar.'' ''fill_blanks'' 2 3)
      = Inr stray_answer"
    by blast
  from activity_returned_as_parsed [where client = "scripted [] (Returns (Some dangling_element_body))" and k = 0
      and topic = "''Photosynthesis''" and explanation = "''Plants turn light into sugar.''"
      and template_type = "''drag_drop''" and clock = willing_clock and retries = 1 and delay = 10000000000,
      OF s0 sample_decoder_simps(3)]
  have three: "fst (generate_interactive_activity
      (scripted [] (Returns (Some dangling_element_body))) sample_decoder
      willing_clock ''Photosynthesis'' ''Plants turn light into sugar.'' ''drag_drop'' 1 10000000000)
      = Inr dangling_element"
    by simp
  from one two three shapes show ?thesis by simp
qed

text \<open>
  C6, as worded, fails in its converse: a \<^verbatim>\<open>GEMINI_API_KEY\<close> that is present in the
  environment with the empty string as its value makes the module raise as well.
\<close>

theorem credential_present_counterexample:
  "os_getenv [''GEMINI_API_KEY'' \<mapsto> ''''] ''GEMINI_API_KEY'' = Some '''' \<and>
   load_module (\<lambda>key. scripted [] (Returns (Some ''{}''))) [''GEMINI_API_KEY'' \<mapsto> '''']
     = Inl ValueError"
  by (simp add: os_getenv_def load_module_def truthy_def)

text \<open>
  C6, amended. When \<^verbatim>\<open>GEMINI_API_KEY\<close> is absent from the environment or empty, loading
  the module raises \<^verbatim>\<open>ValueError\<close> at once, with no call of the service, and no stage
  function can be reached; when it is present with a non-empty value the check does not
  raise, the client is built from the key, and the stage functions run with it.
\<close>

theorem credential_check:
  "((environ ''GEMINI_API_KEY'' = None \<or> environ ''GEMINI_API_KEY'' = Some []) \<longrightarrow>
      load_module genai_Client environ = Inl ValueError \<and>
      from_module genai_Client environ stage = (Inl ValueError, [])) \<and>
   (\<forall>key. environ ''GEMINI_API_KEY'' = Some key \<and> key \<noteq> [] \<longrightarrow>
      load_module genai_Client environ =
        Inr \<lparr>GEMINI_API_KEY = key, client_of = genai_Client key, MODEL_ID_of = MODEL_ID\<rparr> \<and>
      from_module genai_Client environ stage = stage (genai_Client key))"
  by (auto simp: load_module_def from_module_def os_getenv_def truthy_def)

theorem credential_check_witness:
  "load_module (\<lambda>key. scripted [] (Returns (Some ''{}''))) Map.empty = Inl ValueError \<and>
   from_module (\<lambda>key. scripted [] (Returns (Some ''{}''))) Map.empty
      (\<lambda>client. generate_subtopics client sample_decoder willing_clock ''Why is the sky blue?'' 1 3)
     = (Inl ValueError, []) \<and>
   load_module (\<lambda>key. scripted [] (Returns (Some ''{}''))) [''GEMINI_API_KEY'' \<mapsto> ''k-123'']
     = Inr \<lparr>GEMINI_API_KEY = ''k-123'', client_of = scripted [] (Returns (Some ''{}'')),
            MODEL_ID_of = MODEL_ID\<rparr> \<and>
   from_module (\<lambda>key. scripted [] (Returns (Some ''{}''))) [''GEMINI_API_KEY'' \<mapsto> ''k-123'']
      (\<lambda>client. generate_subtopics client sample_decoder willing_clock ''Why is the sky blue?'' 1 3)
     = generate_subtopics (scripted [] (Returns (Some ''{}''))) sample_decoder willing_clock
         ''Why is the sky blue?'' 1 3"
  using credential_check [of Map.empty "\<lambda>key. scripted [] (Returns (Some ''{}''))"
      "\<lambda>client. generate_subtopics client sample_decoder willing_clock ''Why is the sky blue?'' 1 3"]
    credential_check [of "[''GEMINI_API_KEY'' \<mapsto> ''k-123'']"
      "\<lambda>key. scripted [] (Returns (Some ''{}''))"
      "\<lambda>client. generate_subtopics client sample_decoder willing_clock ''Why is the sky blue?'' 1 3"]
  by simp

text \<open>
  C7. With the default budget \<open>retries = 1\<close> each of the three stage functions calls
  the service exactly once and never sleeps, whatever the delay and the clock; it
  returns the parsed value when the attempt succeeds and \<^verbatim>\<open>None\<close> when it fails in any
  way.
\<close>

theorem default_budget_single_attempt:
  "calls_of (snd (generate_subtopics client dec clock q default_retries delay)) =
     [subtopics_request q] \<and>
   sleeps_of (snd (generate_subtopics client dec clock q default_retries delay)) = [] \<and>
   fst (generate_subtopics client dec clock q default_retries delay) =
     Inr (case parsed dec (client 0 (subtopics_request q)) of Some v \<Rightarrow> v | None \<Rightarrow> JNull) \<and>
   calls_of (snd (generate_explanation_and_activity client dec clock subtopic q default_retries delay)) =
     [explanation_request subtopic q] \<and>
   sleeps_of (snd (generate_explanation_and_activity client dec clock subtopic q default_retries delay))
     = [] \<and>
   fst (generate_explanation_and_activity client dec clock subtopic q default_retries delay) =
     Inr (case parsed dec (client 0 (explanation_request subtopic q)) of Some v \<Rightarrow> v | None \<Rightarrow> JNull) \<and>
   calls_of (snd (generate_interactive_activity client dec clock topic explanation template_type
       default_retries delay)) = [activity_request topic explanation template_type] \<and>
   sleeps_of (snd (generate_interactive_activity client dec clock topic explanation template_type
       default_retries delay)) = [] \<and>
   fst (generate_interactive_activity client dec clock topic explanation template_type
       default_retries delay) =
     Inr (case parsed dec (client 0 (activity_request topic explanation template_type)) of
            Some v \<Rightarrow> v | None \<Rightarrow> JNull)"
  using subtopics_single [of client dec clock q delay]
    explanation_single [of client dec clock subtopic q delay]
    activity_single [of client dec clock topic explanation template_type delay]
  by (simp add: calls_sleeps_of_single)

text \<open>
  C8. The parse step is a function of the body alone: two runs of stage 1 whose first
  response carries the same well-formed body return equal values, whatever the
  question, the budget, the delay and the clock of each run, and whatever the service
  does afterwards.
\<close>

theorem parse_step_deterministic:
  assumes "1 \<le> retries" "1 \<le> retries'"
    and "client 0 (subtopics_request q) = Returns (Some body)"
    and "client' 0 (subtopics_request q') = Returns (Some body)"
    and "json_loads dec (Some body) = Inr v"
  shows "fst (generate_subtopics client dec clock q retries delay) =
           fst (generate_subtopics client' dec clock' q' retries' delay') \<and>
         fst (generate_subtopics client dec clock q retries delay) = Inr v"
proof -
  have "parsed dec (client 0 (subtopics_request q)) = Some v"
    and "parsed dec (client' 0 (subtopics_request q')) = Some v"
    using assms(3,4,5) by (simp_all add: parsed_Returns)
  with assms(1,2) show ?thesis
    by (simp add: subtopics_first_success)
qed

theorem parse_step_deterministic_witness:
  "fst (generate_subtopics (scripted [] (Returns (Some ''{}''))) sample_decoder willing_clock
          ''Why is the sky blue?'' 1 3) =
   fst (generate_subtopics (scripted [Returns (Some ''{}'')] (Raises APIError)) sample_decoder
          willing_clock ''Why do leaves fall?'' 4 7) \<and>
   fst (generate_subtopics (scripted [] (Returns (Some ''{}''))) sample_decoder willing_clock
          ''Why is the sky blue?'' 1 3) = Inr (JObject [])"
proof -
  have r: "(1::int) \<le> 1" "(1::int) \<le> 4" by simp_all
  have c: "scripted [] (Returns (Some ''{}'')) 0 req = Returns (Some ''{}'')"
    "scripted [Returns (Some ''{}'')] (Raises APIError) 0 req = Returns (Some ''{}'')" for req
    by (simp_all add: scripted_def)
  from parse_step_deterministic [of 1 4 "scripted [] (Returns (Some ''{}''))" "''Why is the sky blue?''"
      "''{}''" "scripted [Returns (Some ''{}'')] (Raises APIError)" "''Why do leaves fall?''"
      sample_decoder "JObject []" willing_clock 3 willing_clock 7, OF r c sample_decoder_simps(4)]
  show ?thesis .
qed

text \<open>
  C9. Every request stage 1 sends carries the sampling temperature 0.7 and the output
  token ceiling 500; every request stage 2 sends carries the ceiling 1000; so the ceiling
  of any request of stage 2 is strictly larger than that of any request of stage 1.
\<close>

theorem request_configurations:
  "(\<forall>r \<in> set (calls_of (snd (generate_subtopics client dec clock q retries delay))).
      temperature (config r) = 7 / 10 \<and> max_output_tokens (config r) = Some 500) \<and>
   (\<forall>r' \<in> set (calls_of (snd (generate_explanation_and_activity client' dec' clock' subtopic q'
        retries' delay'))).
      max_output_tokens (config r') = Some 1000 \<and>
      (\<forall>r \<in> set (calls_of (snd (generate_subtopics client dec clock q retries delay))).
         the (max_output_tokens (config r)) < the (max_output_tokens (config r'))))"
proof -
  have one: "temperature (config r) = 7 / 10 \<and> max_output_tokens (config r) = Some 500"
    if "r \<in> set (calls_of (snd (generate_subtopics client dec clock q retries delay)))" for r
  proof -
    from that subtopics_calls [of client dec clock q retries delay]
    have "r = subtopics_request q" by auto
    then show ?thesis by (simp add: subtopics_request_def subtopics_config_def)
  qed
  have two: "max_output_tokens (config r') = Some 1000"
    if "r' \<in> set (calls_of (snd (generate_explanation_and_activity client' dec' clock' subtopic q'
        retries' delay')))" for r'
  proof -
    from that explanation_calls [of client' dec' clock' subtopic q' retries' delay']
    have "r' = explanation_request subtopic q'" by auto
    then show ?thesis by (simp add: explanation_request_def explanation_config_def)
  qed
  show ?thesis
    using one two by simp
qed

theorem request_configurations_witness:
  "calls_of (snd (generate_subtopics (scripted [] (Returns (Some ''{}''))) sample_decoder
       willing_clock ''Why is the sky blue?'' default_retries 3)) =
     [subtopics_request ''Why is the sky blue?''] \<and>
   temperature (config (subtopics_request ''Why is the sky blue?'')) = 7 / 10 \<and>
   max_output_tokens (config (subtopics_request ''Why is the sky blue?'')) = Some 500 \<and>
   calls_of (snd (generate_explanation_and_activity (scripted [] (Returns (Some ''{}'')))
       sample_decoder willing_clock ''Rayleigh scattering'' ''Why is the sky blue?''
       default_retries 3)) =
     [explanation_request ''Rayleigh scattering'' ''Why is the sky blue?''] \<and>
   max_output_tokens (config (explanation_request ''Rayleigh scattering'' ''Why is the sky blue?''))
     = Some 1000 \<and>
   the (max_output_tokens (config (subtopics_request ''Why is the sky blue?''))) <
     the (max_output_tokens (config (explanation_request ''Rayleigh scattering''
       ''Why is the sky blue?'')))"
proof -
  let ?c = "scripted [] (Returns (Some ''{}''))"
  have c1: "calls_of (snd (generate_subtopics ?c sample_decoder willing_clock
      ''Why is the sky blue?'' default_retries 3)) = [subtopics_request ''Why is the sky blue?'']"
    using subtopics_single [of ?c sample_decoder willing_clock "''Why is the sky blue?''" 3]
    by (simp add: calls_sleeps_of_single)
  have c2: "calls_of (snd (generate_explanation_and_activity ?c sample_decoder willing_clock
      ''Rayleigh scattering'' ''Why is the sky blue?'' default_retries 3)) =
      [explanation_request ''Rayleigh scattering'' ''Why is the sky blue?'']"
    using explanation_single [of ?c sample_decoder willing_clock "''Rayleigh scattering''"
        "''Why is the sky blue?''" 3]
    by (simp add: calls_sleeps_of_single)
  from request_configurations [of ?c sample_decoder willing_clock "''Why is the sky blue?''"
      default_retries 3 ?c sample_decoder willing_clock "''Rayleigh scattering''"
      "''Why is the sky blue?''" default_retries 3]
  show ?thesis
    unfolding c1 c2 by simp
qed

text \<open>
  C10. With an attempt budget \<open>retries \<le> 0\<close> each stage function returns the sentinel
  \<^verbatim>\<open>None\<close> at once: its whole trace is the one line printed after the loop, so no call
  of the service is made and no sleep is taken.
\<close>

theorem nonpositive_budget_returns_at_once:
  assumes "retries \<le> 0"
  shows "generate_subtopics client dec clock q retries delay =
           (Inr JNull, [Print MaxRetriesSubtopics]) \<and>
         generate_explanation_and_activity client dec clock subtopic q retries delay =
           (Inr JNull, [Print MaxRetriesExplanation]) \<and>
         generate_interactive_activity client dec clock topic explanation template_type retries delay =
           (Inr JNull, [Print MaxRetriesActivity])"
  using assms
  by (simp add: generate_subtopics_def generate_explanation_and_activity_def
      generate_interactive_activity_def print_def)

theorem nonpositive_budget_returns_at_once_witness:
  "(-2::int) \<le> 0 \<and>
   generate_subtopics (scripted [] (Returns (Some ''{}''))) (decoder_of_table [(''{}'', JObject [])])
       willing_clock ''Why is the sky blue?'' (-2) 3 =
     (Inr JNull, [Print MaxRetriesSubtopics]) \<and>
   generate_explanation_and_activity (scripted [] (Returns (Some ''{}'')))
       (decoder_of_table [(''{}'', JObject [])]) willing_clock ''Rayleigh scattering''
       ''Why is the sky blue?'' (-2) 3 =
     (Inr JNull, [Print MaxRetriesExplanation]) \<and>
   generate_interactive_activity (scripted [] (Returns (Some ''{}'')))
       (decoder_of_table [(''{}'', JObject [])]) willing_clock ''Rayleigh scattering''
       ''Short waves scatter more.'' ''match_pairs'' (-2) 3 =
     (Inr JNull, [Print MaxRetriesActivity])"
  using nonpositive_budget_returns_at_once [of "-2" "scripted [] (Returns (Some ''{}''))"
      "decoder_of_table [(''{}'', JObject [])]" willing_clock "''Why is the sky blue?''" 3
      "''Rayleigh scattering''" "''Rayleigh scattering''" "''Short waves scatter more.''"
      "''match_pairs''"]
  by simp

end
